theory Spec2Isabelle
  imports Complex_Main "HOL-Library.Char_ord" "HOL-Library.List_Lexorder" "HOL-Library.Multiset"
begin

section \<open>YouTube analytics collector: data model\<close>

text \<open>
  The development embeds \<^verbatim>\<open>fetch_youtube_analytics.py\<close>. The script talks to two web
  services and to Python's \<^verbatim>\<open>datetime\<close> module; none of them is part of the script, so
  the outcome of each external call is an input of the model:
  \<^item> an API call either raises (\<open>Inl e\<close>) or returns a response (\<open>Inr r\<close>);
  \<^item> the date library is a record of functions over an abstract type \<open>'dt\<close> of points
    in time.

  Python numbers (\<^verbatim>\<open>int\<close> and \<^verbatim>\<open>float\<close>) are idealised as exact rationals: the model
  does not describe binary floating-point rounding. A row of a report is typed as the
  API documents it: a dimension string in column 0 followed by numeric metrics. Strings
  are byte strings; \<^verbatim>\<open>str.upper\<close> is the ASCII one.
\<close>

datatype error = ApiError | IndexError | KeyError | ValueError

subsection \<open>Rows and responses of the analytics API\<close>

record row =
  dim :: string
  nums :: "rat list"

text \<open>\<^verbatim>\<open>len(row)\<close> and \<^verbatim>\<open>row[i]\<close> for a metric column \<open>i \<ge> 1\<close>; an index out of range
  raises \<^verbatim>\<open>IndexError\<close>.\<close>

definition row_len :: "row \<Rightarrow> nat" where
  "row_len r = Suc (length (nums r))"

definition row_num :: "row \<Rightarrow> nat \<Rightarrow> error + rat" where
  "row_num r i = (if 1 \<le> i \<and> i < row_len r then Inr (nums r ! (i - 1)) else Inl IndexError)"

text \<open>A response is a dictionary that may or may not have the key \<^verbatim>\<open>rows\<close>;
  \<^verbatim>\<open>response.get('rows', [])\<close> reads it.\<close>

type_synonym response = "row list option"

definition get_rows :: "response \<Rightarrow> row list" where
  "get_rows response = (case response of None \<Rightarrow> [] | Some rs \<Rightarrow> rs)"

record report_query =
  q_ids :: string
  q_startDate :: string
  q_endDate :: string
  q_metrics :: string
  q_dimensions :: string
  q_maxResults :: "nat option"
  q_sort :: string

text \<open>The analytics client: \<^verbatim>\<open>youtube_analytics.reports().query(...).execute()\<close>.\<close>

type_synonym analytics_client = "report_query \<Rightarrow> error + response"

subsection \<open>Python arithmetic\<close>

text \<open>\<^verbatim>\<open>sum(row[i] for row in rows)\<close>: the generator raises at the first short row.\<close>

fun sum_col :: "nat \<Rightarrow> row list \<Rightarrow> error + rat" where
  "sum_col i [] = Inr 0"
| "sum_col i (r # rs) =
     (case row_num r i of
        Inl e \<Rightarrow> Inl e
      | Inr v \<Rightarrow> (case sum_col i rs of Inl e \<Rightarrow> Inl e | Inr s \<Rightarrow> Inr (v + s)))"

text \<open>\<^verbatim>\<open>round(x)\<close>: to the nearest integer, ties to the even one.\<close>

definition py_round :: "rat \<Rightarrow> int" where
  "py_round x =
     (let f = \<lfloor>x\<rfloor>; d = x - of_int f
      in if d < 1 / 2 then f else if 1 / 2 < d then f + 1 else if even f then f else f + 1)"

text \<open>\<^verbatim>\<open>round(x, 1)\<close>: to one decimal place.\<close>

definition py_round1 :: "rat \<Rightarrow> rat" where
  "py_round1 x = of_int (py_round (x * 10)) / 10"

text \<open>\<^verbatim>\<open>int(x)\<close> on a number: truncation toward zero.\<close>

definition py_int :: "rat \<Rightarrow> int" where
  "py_int x = (if 0 \<le> x then \<lfloor>x\<rfloor> else \<lceil>x\<rceil>)"

subsection \<open>Python strings\<close>

definition upper_char :: "char \<Rightarrow> char" where
  "upper_char c =
     (if CHR ''a'' \<le> c \<and> c \<le> CHR ''z'' then char_of (of_char c - (32::nat)) else c)"

definition upper :: "string \<Rightarrow> string" where
  "upper s = map upper_char s"

fun starts_with :: "string \<Rightarrow> string \<Rightarrow> bool" where
  "starts_with [] s = True"
| "starts_with (p # ps) [] = False"
| "starts_with (p # ps) (c # cs) = (p = c \<and> starts_with ps cs)"

text \<open>\<^verbatim>\<open>needle in s\<close> on strings.\<close>

fun str_in :: "string \<Rightarrow> string \<Rightarrow> bool" where
  "str_in needle [] = (needle = [])"
| "str_in needle (c # cs) = (starts_with needle (c # cs) \<or> str_in needle cs)"

section \<open>Traffic sources\<close>

record 'a sources =
  search :: 'a
  browse :: 'a
  external :: 'a
  other :: 'a

datatype source_key = Search | Browse | External | Other

definition source_get :: "'a sources \<Rightarrow> source_key \<Rightarrow> 'a" where
  "source_get s k =
     (case k of Search \<Rightarrow> search s | Browse \<Rightarrow> browse s | External \<Rightarrow> external s
      | Other \<Rightarrow> other s)"

definition source_add :: "'a::plus sources \<Rightarrow> source_key \<Rightarrow> 'a \<Rightarrow> 'a sources" where
  "source_add s k v =
     (case k of
        Search \<Rightarrow> s\<lparr>search := search s + v\<rparr>
      | Browse \<Rightarrow> s\<lparr>browse := browse s + v\<rparr>
      | External \<Rightarrow> s\<lparr>external := external s + v\<rparr>
      | Other \<Rightarrow> s\<lparr>other := other s + v\<rparr>)"

text \<open>The \<^verbatim>\<open>if\<close>/\<^verbatim>\<open>elif\<close> chain of lines 150 to 157.\<close>

definition classify :: "string \<Rightarrow> source_key" where
  "classify source_type =
     (let u = upper source_type
      in if str_in ''SEARCH'' u \<or> str_in ''YT_SEARCH'' u then Search
         else if str_in ''BROWSE'' u \<or> str_in ''SUGGESTED'' u \<or> str_in ''RELATED'' u then Browse
         else if str_in ''EXTERNAL'' u \<or> str_in ''EXT'' u then External
         else Other)"

text \<open>The loop of lines 145 to 157 over the rows, threading the dictionary.\<close>

fun accumulate_sources :: "rat \<Rightarrow> row list \<Rightarrow> rat sources \<Rightarrow> error + rat sources" where
  "accumulate_sources total_views [] s = Inr s"
| "accumulate_sources total_views (r # rs) s =
     (case row_num r 1 of
        Inl e \<Rightarrow> Inl e
      | Inr views \<Rightarrow>
          (let percentage = (if total_views > 0 then views / total_views * 100 else 0)
           in accumulate_sources total_views rs (source_add s (classify (dim r)) percentage)))"

text \<open>\<^verbatim>\<open>{k: round(v) for k, v in sources.items()}\<close>.\<close>

definition round_sources :: "rat sources \<Rightarrow> int sources" where
  "round_sources s =
     \<lparr>search = py_round (search s), browse = py_round (browse s),
      external = py_round (external s), other = py_round (other s)\<rparr>"

text \<open>\<^verbatim>\<open>max(sources, key=sources.get)\<close>: the keys are visited in insertion order and a
  later key replaces the best one only when its value is strictly larger.\<close>

definition max_key :: "int sources \<Rightarrow> source_key" where
  "max_key s =
     fold (\<lambda>k best. if source_get s best < source_get s k then k else best)
       [Browse, External, Other] Search"

text \<open>Lines 163 to 166: the corrective adjustment.\<close>

definition adjust_sources :: "int sources \<Rightarrow> int sources" where
  "adjust_sources s =
     (let total = search s + browse s + external s + other s
      in if total \<noteq> 100 then source_add s (max_key s) (100 - total) else s)"

definition default_sources :: "int sources" where
  "default_sources = \<lparr>search = 42, browse = 31, external = 18, other = 9\<rparr>"

definition traffic_sources_query :: "string \<Rightarrow> string \<Rightarrow> string \<Rightarrow> report_query" where
  "traffic_sources_query channel_id start_date end_date =
     \<lparr>q_ids = ''channel=='' @ channel_id, q_startDate = start_date, q_endDate = end_date,
      q_metrics = ''views'', q_dimensions = ''insightTrafficSourceType'',
      q_maxResults = None, q_sort = ''-views''\<rparr>"

text \<open>The body of the \<^verbatim>\<open>try\<close> block of lines 124 to 168.\<close>

definition traffic_sources_body ::
  "analytics_client \<Rightarrow> string \<Rightarrow> string \<Rightarrow> string \<Rightarrow> error + int sources" where
  "traffic_sources_body youtube_analytics channel_id start_date end_date =
     (case youtube_analytics (traffic_sources_query channel_id start_date end_date) of
        Inl e \<Rightarrow> Inl e
      | Inr response \<Rightarrow>
          (let rows = get_rows response
           in case sum_col 1 rows of
                Inl e \<Rightarrow> Inl e
              | Inr total_views \<Rightarrow>
                  (case accumulate_sources total_views rows
                          \<lparr>search = 0, browse = 0, external = 0, other = 0\<rparr> of
                     Inl e \<Rightarrow> Inl e
                   | Inr s \<Rightarrow> Inr (adjust_sources (round_sources s)))))"

definition fetch_traffic_sources ::
  "analytics_client \<Rightarrow> string \<Rightarrow> string \<Rightarrow> string \<Rightarrow> int sources" where
  "fetch_traffic_sources youtube_analytics channel_id start_date end_date =
     (case traffic_sources_body youtube_analytics channel_id start_date end_date of
        Inl e \<Rightarrow> default_sources
      | Inr s \<Rightarrow> s)"

section \<open>The date library and the data API\<close>

text \<open>What the script uses of \<^verbatim>\<open>datetime\<close> and of \<^verbatim>\<open>int\<close> on strings:
  \<^verbatim>\<open>datetime.now()\<close>, subtraction of \<^verbatim>\<open>timedelta(days=n)\<close>, \<^verbatim>\<open>datetime.strptime(s, fmt)\<close>
  (which raises on a string that does not match), \<^verbatim>\<open>d.strftime(fmt)\<close> and \<^verbatim>\<open>int(s)\<close>.\<close>

record 'dt pylib =
  now :: 'dt
  minus_days :: "'dt \<Rightarrow> nat \<Rightarrow> 'dt"
  strptime :: "string \<Rightarrow> string \<Rightarrow> error + 'dt"
  strftime :: "'dt \<Rightarrow> string \<Rightarrow> string"
  int_str :: "string \<Rightarrow> error + int"

text \<open>Responses of the data API. A dictionary key that may be missing is an option:
  reading it with \<^verbatim>\<open>d[k]\<close> raises \<^verbatim>\<open>KeyError\<close> on \<open>None\<close>.\<close>

text \<open>\<^verbatim>\<open>videos().list(part='snippet')\<close>: the list under \<^verbatim>\<open>items\<close>, each item with
  its \<^verbatim>\<open>['snippet']['title']\<close>.\<close>

type_synonym title_response = "string option list option"

record video_stats =
  viewCount :: "string option"
  likeCount :: "string option"

text \<open>\<^verbatim>\<open>videos().list(part='statistics')\<close>: the list under \<^verbatim>\<open>items\<close>, each item with
  its \<^verbatim>\<open>['statistics']\<close>.\<close>

type_synonym stats_response = "video_stats option list option"

record search_snippet =
  publishedAt :: "string option"
  snippet_title :: "string option"

record search_item =
  item_videoId :: "string option"
  item_snippet :: "search_snippet option"

type_synonym search_response = "search_item list option"

record search_query =
  sq_channelId :: string
  sq_publishedAfter :: string
  sq_maxResults :: nat
  sq_order :: string

record data_client =
  videos_list_snippet :: "string \<Rightarrow> error + title_response"
  videos_list_statistics :: "string \<Rightarrow> error + stats_response"
  search_list :: "search_query \<Rightarrow> error + search_response"

definition CHANNEL_ID :: string where
  "CHANNEL_ID = ''UCK3ct4iOm2HqnOiv8sgMHxA''"

definition get_date_range :: "'dt pylib \<Rightarrow> nat \<Rightarrow> string \<times> string" where
  "get_date_range lib days =
     (let end_date = now lib; start_date = minus_days lib end_date days
      in (strftime lib start_date ''%Y-%m-%d'', strftime lib end_date ''%Y-%m-%d''))"

section \<open>Channel metrics and click-through rate\<close>

definition channel_metrics_query :: "string \<Rightarrow> string \<Rightarrow> string \<Rightarrow> report_query" where
  "channel_metrics_query channel_id start_date end_date =
     \<lparr>q_ids = ''channel=='' @ channel_id, q_startDate = start_date, q_endDate = end_date,
      q_metrics = ''views,estimatedMinutesWatched,averageViewDuration,subscribersGained,subscribersLost'',
      q_dimensions = ''day'', q_maxResults = None, q_sort = ''day''\<rparr>"

text \<open>No \<^verbatim>\<open>try\<close> here: what the query raises, the function raises.\<close>

definition fetch_channel_metrics ::
  "analytics_client \<Rightarrow> string \<Rightarrow> string \<Rightarrow> string \<Rightarrow> error + response" where
  "fetch_channel_metrics youtube_analytics channel_id start_date end_date =
     youtube_analytics (channel_metrics_query channel_id start_date end_date)"

definition click_through_rate_query :: "string \<Rightarrow> string \<Rightarrow> string \<Rightarrow> report_query" where
  "click_through_rate_query channel_id start_date end_date =
     \<lparr>q_ids = ''channel=='' @ channel_id, q_startDate = start_date, q_endDate = end_date,
      q_metrics = ''views,cardImpressions,cardClicks,cardClickRate'',
      q_dimensions = ''day'', q_maxResults = None, q_sort = ''day''\<rparr>"

text \<open>\<^verbatim>\<open>row[i] if len(row) > i else 0\<close>, for a metric column \<open>i \<ge> 1\<close>: the guard keeps
  the index in range.\<close>

definition row_num_or_0 :: "row \<Rightarrow> nat \<Rightarrow> rat" where
  "row_num_or_0 r i = (if row_len r > i then nums r ! (i - 1) else 0)"

definition fetch_click_through_rate ::
  "analytics_client \<Rightarrow> string \<Rightarrow> string \<Rightarrow> string \<Rightarrow> rat" where
  "fetch_click_through_rate youtube_analytics channel_id start_date end_date =
     (case youtube_analytics (click_through_rate_query channel_id start_date end_date) of
        Inl e \<Rightarrow> 48 / 10
      | Inr response \<Rightarrow>
          (let rows = get_rows response
           in if rows \<noteq> [] then
                (let ctr_values = map (\<lambda>row. row_num_or_0 row 3) rows
                 in if ctr_values \<noteq> [] then sum_list ctr_values / of_nat (length ctr_values)
                    else 0)
              else 48 / 10))"

section \<open>Top video\<close>

record video_summary =
  bv_title :: string
  bv_views :: rat
  bv_watch_hours :: rat
  bv_likes :: rat

definition top_video_query :: "string \<Rightarrow> string \<Rightarrow> string \<Rightarrow> report_query" where
  "top_video_query channel_id start_date end_date =
     \<lparr>q_ids = ''channel=='' @ channel_id, q_startDate = start_date, q_endDate = end_date,
      q_metrics = ''views,estimatedMinutesWatched,likes'',
      q_dimensions = ''video'', q_maxResults = Some 1, q_sort = ''-views''\<rparr>"

text \<open>The body of the \<^verbatim>\<open>try\<close> block of lines 206 to 211. The conditional expression
  tests \<^verbatim>\<open>video_response.get('items')\<close> first (a missing or empty list is false) and
  only then indexes.\<close>

definition video_title_body :: "data_client \<Rightarrow> string \<Rightarrow> error + string" where
  "video_title_body youtube_data video_id =
     (case videos_list_snippet youtube_data video_id of
        Inl e \<Rightarrow> Inl e
      | Inr video_response \<Rightarrow>
          (case video_response of
             None \<Rightarrow> Inr ''Unknown Title''
           | Some [] \<Rightarrow> Inr ''Unknown Title''
           | Some (item # _) \<Rightarrow> (case item of None \<Rightarrow> Inl KeyError | Some t \<Rightarrow> Inr t)))"

text \<open>Lines 205 to 213, with the bare \<^verbatim>\<open>except\<close>.\<close>

definition video_title :: "data_client \<Rightarrow> string \<Rightarrow> string" where
  "video_title youtube_data video_id =
     (case video_title_body youtube_data video_id of
        Inl e \<Rightarrow> ''Video '' @ take 10 video_id
      | Inr t \<Rightarrow> t)"

definition fetch_top_video ::
  "analytics_client \<Rightarrow> data_client \<Rightarrow> string \<Rightarrow> string \<Rightarrow> string \<Rightarrow> error + video_summary"
where
  "fetch_top_video youtube_analytics youtube_data channel_id start_date end_date =
     (case youtube_analytics (top_video_query channel_id start_date end_date) of
        Inl e \<Rightarrow> Inl e
      | Inr response \<Rightarrow>
          (case get_rows response of
             [] \<Rightarrow>
               Inr \<lparr>bv_title = ''No videos in this period'', bv_views = 0,
                    bv_watch_hours = 0, bv_likes = 0\<rparr>
           | r0 # _ \<Rightarrow>
               (let video_id = dim r0
                in case row_num r0 1 of
                     Inl e \<Rightarrow> Inl e
                   | Inr views \<Rightarrow>
                       (case row_num r0 2 of
                          Inl e \<Rightarrow> Inl e
                        | Inr minutes_watched \<Rightarrow>
                            (let likes = row_num_or_0 r0 3;
                                 title = video_title youtube_data video_id
                             in Inr \<lparr>bv_title = title, bv_views = views,
                                     bv_watch_hours = py_round1 (minutes_watched / 60),
                                     bv_likes = likes\<rparr>)))))"

section \<open>Subscriber growth chart\<close>

record chart =
  chart_labels :: "string list"
  chart_values :: "rat list"

text \<open>\<^verbatim>\<open>xs[::step]\<close> for \<open>step \<ge> 1\<close>: the first element, then the slice of what
  follows after skipping \<open>step - 1\<close> elements.\<close>

fun slice_step :: "nat \<Rightarrow> 'a list \<Rightarrow> 'a list" where
  "slice_step step [] = []"
| "slice_step step (x # xs) = x # slice_step step (drop (step - 1) xs)"

text \<open>The loop of lines 240 to 252.\<close>

fun chart_loop ::
  "'dt pylib \<Rightarrow> row list \<Rightarrow> string list \<Rightarrow> rat list \<Rightarrow> error + string list \<times> rat list"
where
  "chart_loop lib [] labels vals = Inr (labels, vals)"
| "chart_loop lib (row # rest) labels vals =
     (let date_str = dim row;
          subs_gained = row_num_or_0 row 4;
          subs_lost = row_num_or_0 row 5;
          net_growth = subs_gained - subs_lost
      in case strptime lib date_str ''%Y-%m-%d'' of
           Inl e \<Rightarrow> Inl e
         | Inr date_obj \<Rightarrow>
             (let formatted_date = strftime lib date_obj ''%b %d''
              in chart_loop lib rest (labels @ [formatted_date]) (vals @ [net_growth])))"

definition calculate_subscriber_growth_chart :: "'dt pylib \<Rightarrow> response \<Rightarrow> error + chart" where
  "calculate_subscriber_growth_chart lib metrics_data =
     (let rows = get_rows metrics_data
      in if rows = [] then Inr \<lparr>chart_labels = [], chart_values = []\<rparr>
         else
           (let step = max 1 (length rows div 6);
                selected_rows = slice_step step rows
            in case chart_loop lib selected_rows [] [] of
                 Inl e \<Rightarrow> Inl e
               | Inr (labels, vals) \<Rightarrow> Inr \<lparr>chart_labels = labels, chart_values = vals\<rparr>))"

section \<open>Recent launches\<close>

record video_launch =
  vl_date :: string
  full_date :: string
  vl_title :: string
  vl_views :: int
  vl_likes :: int
  vl_video_id :: string

text \<open>\<^verbatim>\<open>int(stats.get(key, 0))\<close>: the integer 0 when the key is missing, \<^verbatim>\<open>int\<close> of the
  string otherwise.\<close>

definition int_stat :: "'dt pylib \<Rightarrow> string option \<Rightarrow> error + int" where
  "int_stat lib v = (case v of None \<Rightarrow> Inr 0 | Some s \<Rightarrow> int_str lib s)"

text \<open>The loop of lines 281 to 306, threading \<^verbatim>\<open>video_launches\<close>. The entries of the
  dictionary literal are evaluated in the order they are written.\<close>

fun launches_loop ::
  "'dt pylib \<Rightarrow> data_client \<Rightarrow> search_item list \<Rightarrow> video_launch list \<Rightarrow> error + video_launch list"
where
  "launches_loop lib youtube_data [] video_launches = Inr video_launches"
| "launches_loop lib youtube_data (item # rest) video_launches =
     (case item_videoId item of
        None \<Rightarrow> Inl KeyError
      | Some video_id \<Rightarrow>
     (case item_snippet item of
        None \<Rightarrow> Inl KeyError
      | Some snippet \<Rightarrow>
     (case videos_list_statistics youtube_data video_id of
        Inl e \<Rightarrow> Inl e
      | Inr video_response \<Rightarrow>
     (case video_response of
        None \<Rightarrow> Inl KeyError
      | Some [] \<Rightarrow> launches_loop lib youtube_data rest video_launches
      | Some (first_item # _) \<Rightarrow>
     (case first_item of
        None \<Rightarrow> Inl KeyError
      | Some stats \<Rightarrow>
     (case publishedAt snippet of
        None \<Rightarrow> Inl KeyError
      | Some published_at \<Rightarrow>
     (case strptime lib published_at ''%Y-%m-%dT%H:%M:%SZ'' of
        Inl e \<Rightarrow> Inl e
      | Inr pub_datetime \<Rightarrow>
     (let formatted_date = strftime lib pub_datetime ''%b %d''
      in case snippet_title snippet of
           None \<Rightarrow> Inl KeyError
         | Some title \<Rightarrow>
     (case int_stat lib (viewCount stats) of
        Inl e \<Rightarrow> Inl e
      | Inr views \<Rightarrow>
     (case int_stat lib (likeCount stats) of
        Inl e \<Rightarrow> Inl e
      | Inr likes \<Rightarrow>
          launches_loop lib youtube_data rest
            (video_launches @
             [\<lparr>vl_date = formatted_date,
               full_date = strftime lib pub_datetime ''%Y-%m-%d'',
               vl_title = title, vl_views = views, vl_likes = likes,
               vl_video_id = video_id\<rparr>])))))))))))"

definition get_items :: "search_response \<Rightarrow> search_item list" where
  "get_items search_response = (case search_response of None \<Rightarrow> [] | Some its \<Rightarrow> its)"

text \<open>The body of the \<^verbatim>\<open>try\<close> block of lines 265 to 312. \<^verbatim>\<open>list.sort\<close> is stable, as
  \<^const>\<open>sort_key\<close> is, and compares the \<^verbatim>\<open>full_date\<close> strings lexicographically.\<close>

definition recent_videos_body ::
  "'dt pylib \<Rightarrow> data_client \<Rightarrow> string \<Rightarrow> string \<Rightarrow> string \<Rightarrow> error + video_launch list"
where
  "recent_videos_body lib youtube_data channel_id start_date end_date =
     (case strptime lib start_date ''%Y-%m-%d'' of
        Inl e \<Rightarrow> Inl e
      | Inr start_datetime \<Rightarrow>
          (let start_rfc3339 = strftime lib start_datetime ''%Y-%m-%dT00:00:00Z''
           in case search_list youtube_data
                     \<lparr>sq_channelId = channel_id, sq_publishedAfter = start_rfc3339,
                      sq_maxResults = 50, sq_order = ''date''\<rparr> of
                Inl e \<Rightarrow> Inl e
              | Inr search_response \<Rightarrow>
                  (case launches_loop lib youtube_data (get_items search_response) [] of
                     Inl e \<Rightarrow> Inl e
                   | Inr video_launches \<Rightarrow> Inr (sort_key full_date video_launches))))"

definition fetch_recent_videos ::
  "'dt pylib \<Rightarrow> data_client \<Rightarrow> string \<Rightarrow> string \<Rightarrow> string \<Rightarrow> video_launch list" where
  "fetch_recent_videos lib youtube_data channel_id start_date end_date =
     (case recent_videos_body lib youtube_data channel_id start_date end_date of
        Inl e \<Rightarrow> []
      | Inr video_launches \<Rightarrow> video_launches)"

section \<open>The report\<close>

record report =
  last_updated :: string
  total_watch_hours :: rat
  avg_view_duration :: int
  duration_change :: "rat option"
  click_through_rate :: rat
  ctr_change :: "rat option"
  subscribers_gained :: rat
  subscribers_lost :: rat
  subscriber_growth_chart :: chart
  traffic_sources :: "int sources"
  best_video :: video_summary
  video_launches :: "video_launch list"

text \<open>Line 349: \<^verbatim>\<open>rows[-1][3] if rows else 0\<close>.\<close>

definition last_view_duration :: "row list \<Rightarrow> error + rat" where
  "last_view_duration rows = (if rows \<noteq> [] then row_num (last rows) 3 else Inr 0)"

text \<open>\<^verbatim>\<open>main\<close> after authentication, given the two clients. \<open>Inl e\<close>: the exception
  \<open>e\<close> left \<^verbatim>\<open>main\<close> and no report was written; \<open>Inr r\<close>: the report \<open>r\<close> was written and
  the script ended normally.\<close>

definition main :: "'dt pylib \<Rightarrow> analytics_client \<Rightarrow> data_client \<Rightarrow> error + report" where
  "main lib youtube_analytics youtube_data =
     (case get_date_range lib 30 of (start_date, end_date) \<Rightarrow>
     (case fetch_channel_metrics youtube_analytics CHANNEL_ID start_date end_date of
        Inl e \<Rightarrow> Inl e
      | Inr metrics_data \<Rightarrow>
     (let ctr = fetch_click_through_rate youtube_analytics CHANNEL_ID start_date end_date;
          traffic = fetch_traffic_sources youtube_analytics CHANNEL_ID start_date end_date
      in case fetch_top_video youtube_analytics youtube_data CHANNEL_ID start_date end_date of
           Inl e \<Rightarrow> Inl e
         | Inr top_video \<Rightarrow>
     (let launches = fetch_recent_videos lib youtube_data CHANNEL_ID start_date end_date;
          rows = get_rows metrics_data
      in case sum_col 2 rows of
           Inl e \<Rightarrow> Inl e
         | Inr total_minutes_watched \<Rightarrow>
     (let watch_hours = total_minutes_watched / 60
      in case last_view_duration rows of
           Inl e \<Rightarrow> Inl e
         | Inr view_duration \<Rightarrow>
     (case sum_col 4 rows of
        Inl e \<Rightarrow> Inl e
      | Inr total_subs_gained \<Rightarrow>
     (case sum_col 5 rows of
        Inl e \<Rightarrow> Inl e
      | Inr total_subs_lost \<Rightarrow>
     (case calculate_subscriber_growth_chart lib metrics_data of
        Inl e \<Rightarrow> Inl e
      | Inr subscriber_chart \<Rightarrow>
          Inr \<lparr>last_updated = strftime lib (now lib) ''%Y-%m-%d'',
               total_watch_hours = py_round1 watch_hours,
               avg_view_duration = py_int view_duration,
               duration_change = None,
               click_through_rate = py_round1 ctr,
               ctr_change = None,
               subscribers_gained = total_subs_gained,
               subscribers_lost = total_subs_lost,
               subscriber_growth_chart = subscriber_chart,
               traffic_sources = traffic,
               best_video = top_video,
               video_launches = launches\<rparr>))))))))"

text \<open>The arithmetic mean of column \<open>i\<close> of a table. The script does not compute it
  in this form; it is the notion that statements about "the mean of a column" refer to.\<close>

definition column_mean :: "nat \<Rightarrow> row list \<Rightarrow> error + rat" where
  "column_mean i rows =
     (case sum_col i rows of Inl e \<Rightarrow> Inl e | Inr s \<Rightarrow> Inr (s / of_nat (length rows)))"

section \<open>Sample runs\<close>

text \<open>Concrete clients and a small date library, used to run the model on examples. The
  library is a stand-in for one month only: a point in time is its ISO date, the clock
  shows 31 March 2024, and dates are read and printed by position.\<close>

fun digits_value :: "string \<Rightarrow> int \<Rightarrow> error + int" where
  "digits_value [] acc = Inr acc"
| "digits_value (c # cs) acc =
     (if CHR ''0'' \<le> c \<and> c \<le> CHR ''9''
      then digits_value cs (10 * acc + int (of_char c - (48::nat)))
      else Inl ValueError)"

definition march_lib :: "string pylib" where
  "march_lib =
     \<lparr>now = ''2024-03-31'',
      minus_days = (\<lambda>d n. if d = ''2024-03-31'' \<and> n = 30 then ''2024-03-01'' else d),
      strptime = (\<lambda>s fmt. if length s = (if fmt = ''%Y-%m-%d'' then 10 else 20)
                            then Inr (take 10 s) else Inl ValueError),
      strftime = (\<lambda>d fmt. if fmt = ''%b %d'' then ''Mar '' @ drop 8 d
                           else if fmt = ''%Y-%m-%d'' then d else d @ ''T00:00:00Z''),
      int_str = (\<lambda>s. if s = [] then Inl ValueError else digits_value s 0)\<rparr>"

text \<open>An analytics client that tells the four queries of the script apart by their
  \<^verbatim>\<open>dimensions\<close> and \<^verbatim>\<open>metrics\<close> parameters and answers each with a fixed outcome.\<close>

definition analytics_stub ::
  "error + response \<Rightarrow> error + response \<Rightarrow> error + response \<Rightarrow> error + response
   \<Rightarrow> analytics_client" where
  "analytics_stub channel_r ctr_r traffic_r top_r q =
     (if q_dimensions q = ''insightTrafficSourceType'' then traffic_r
      else if q_dimensions q = ''video'' then top_r
      else if q_metrics q = ''views,cardImpressions,cardClicks,cardClickRate'' then ctr_r
      else channel_r)"

definition day_rows :: "row list" where
  "day_rows =
     [\<lparr>dim = ''2024-03-29'', nums = [100, 600, 100, 5, 1]\<rparr>,
      \<lparr>dim = ''2024-03-30'', nums = [120, 900, 200, 7, 2]\<rparr>,
      \<lparr>dim = ''2024-03-31'', nums = [90, 300, 241 / 4, 4, 6]\<rparr>]"

text \<open>Thirty daily rows, 1 to 30 March: on day \<open>i\<close>, \<open>i\<close> subscribers gained and one
  lost.\<close>

definition thirty_rows :: "row list" where
  "thirty_rows =
     map (\<lambda>i. \<lparr>dim = ''2024-03-'' @ [char_of (48 + i div 10), char_of (48 + i mod 10)],
                nums = [100, 600, 100, of_nat i, 1]\<rparr>) [1..<31]"

definition ctr_rows :: "row list" where
  "ctr_rows =
     [\<lparr>dim = ''2024-03-29'', nums = [10, 1, 1, 1]\<rparr>,
      \<lparr>dim = ''2024-03-30'', nums = [5, 0, 0, 0]\<rparr>,
      \<lparr>dim = ''2024-03-31'', nums = [5, 0, 0, 0]\<rparr>]"

text \<open>Two days of the click-through-rate report in the column order of the query
  (day, then views, cardImpressions, cardClicks, cardClickRate), with 10 clicks on 40
  impressions on the first day.\<close>

definition click_rows :: "row list" where
  "click_rows =
     [\<lparr>dim = ''2024-03-30'', nums = [120, 40, 10, 1 / 4]\<rparr>,
      \<lparr>dim = ''2024-03-31'', nums = [90, 30, 0, 0]\<rparr>]"

definition traffic_rows :: "row list" where
  "traffic_rows =
     [\<lparr>dim = ''YT_SEARCH'', nums = [414]\<rparr>, \<lparr>dim = ''SUGGESTED'', nums = [314]\<rparr>,
      \<lparr>dim = ''EXT_URL'', nums = [194]\<rparr>, \<lparr>dim = ''PLAYLIST'', nums = [78]\<rparr>]"

definition top_rows :: "row list" where
  "top_rows = [\<lparr>dim = ''dQw4w9WgXcQ'', nums = [500, 1230, 25]\<rparr>]"

definition search_items :: "search_item list" where
  "search_items =
     [\<lparr>item_videoId = Some ''vid-b'',
       item_snippet = Some \<lparr>publishedAt = Some ''2024-03-20T10:00:00Z'',
                              snippet_title = Some ''Second''\<rparr>\<rparr>,
      \<lparr>item_videoId = Some ''vid-a'',
       item_snippet = Some \<lparr>publishedAt = Some ''2024-03-05T08:30:00Z'',
                              snippet_title = Some ''First''\<rparr>\<rparr>]"

definition data_ok :: data_client where
  "data_ok =
     \<lparr>videos_list_snippet = (\<lambda>video_id. Inr (Some [Some ''Never Gonna''])),
      videos_list_statistics =
        (\<lambda>video_id. Inr (Some [Some \<lparr>viewCount = Some ''1500'', likeCount = None\<rparr>])),
      search_list = (\<lambda>q. Inr (Some search_items))\<rparr>"

definition data_down :: data_client where
  "data_down =
     \<lparr>videos_list_snippet = (\<lambda>video_id. Inl ApiError),
      videos_list_statistics = (\<lambda>video_id. Inl ApiError),
      search_list = (\<lambda>q. Inl ApiError)\<rparr>"

section \<open>Auxiliary facts\<close>

lemma adjust_sources_sum:
  "search (adjust_sources s) + browse (adjust_sources s) + external (adjust_sources s)
     + other (adjust_sources s) = 100"
  by (cases "max_key s") (simp_all add: adjust_sources_def source_add_def Let_def)

lemma length_slice_step:
  "length (slice_step (Suc m) xs) = (length xs + m) div Suc m"
proof (induction "Suc m" xs rule: slice_step.induct)
  case 1
  show ?case by simp
next
  case (2 x xs)
  show ?case
  proof (cases "m \<le> length xs")
    case True
    then have "(length (drop m xs) + m) div Suc m = length xs div Suc m" by simp
    moreover have "(length (x # xs) + m) div Suc m = Suc (length xs div Suc m)"
      by (metis add_Suc_right add_Suc_shift div_add_self2 length_Cons nat.distinct(1)
          plus_1_eq_Suc add.commute)
    ultimately show ?thesis using 2 by simp
  next
    case False
    then have "(length (drop m xs) + m) div Suc m = 0" by simp
    moreover have "(length (x # xs) + m) div Suc m = 1"
    proof -
      have lt: "length xs < Suc m" using False by simp
      have "(Suc m + length xs) div Suc m = length xs div Suc m + 1"
        by (rule div_add_self1) simp
      then have "(Suc m + length xs) div Suc m = 1" using lt by simp
      moreover have "length (x # xs) + m = Suc m + length xs" by simp
      ultimately show ?thesis by (simp only:)
    qed
    ultimately show ?thesis using 2 by simp
  qed
qed

lemma nth_slice_step:
  "k < length (slice_step (Suc m) xs) \<Longrightarrow> slice_step (Suc m) xs ! k = xs ! (k * Suc m)"
proof (induction "Suc m" xs arbitrary: k rule: slice_step.induct)
  case 1
  then show ?case by simp
next
  case (2 x xs)
  show ?case
  proof (cases k)
    case 0
    then show ?thesis by simp
  next
    case (Suc j)
    with 2 have j: "j < length (slice_step (Suc m) (drop m xs))" by simp
    then have "slice_step (Suc m) (drop m xs) ! j = drop m xs ! (j * Suc m)"
      using 2 by simp
    also have "\<dots> = xs ! (m + j * Suc m)"
    proof -
      have "drop m xs \<noteq> []" using j by auto
      then have "m \<le> length xs" by simp
      then show ?thesis by (rule nth_drop)
    qed
    finally show ?thesis using Suc by (simp add: add.left_commute)
  qed
qed

text \<open>Every \<open>n\<close>-th element: the slice holds the elements at the indices \<open>0, n, 2n, \<dots>\<close>
  below the length.\<close>

lemma slice_step_nth:
  assumes "1 \<le> n"
  shows "slice_step n xs = map (\<lambda>k. xs ! (k * n)) [0..<(length xs + n - 1) div n]"
proof -
  obtain m where n: "n = Suc m" using assms by (cases n) auto
  show ?thesis
    unfolding n by (rule nth_equalityI) (simp_all add: length_slice_step nth_slice_step)
qed

lemma chart_loop_result:
  "chart_loop lib rs ls vs = Inr (ls', vs') \<Longrightarrow>
     vs' = vs @ map (\<lambda>r. row_num_or_0 r 4 - row_num_or_0 r 5) rs
     \<and> length ls' = length ls + length rs"
proof (induction rs arbitrary: ls vs)
  case Nil
  then show ?case by simp
next
  case (Cons r rs)
  then show ?case by (fastforce simp: Let_def split: sum.splits)
qed

lemma chart_loop_total:
  "\<forall>r\<in>set rs. \<exists>d. strptime lib (dim r) ''%Y-%m-%d'' = Inr d \<Longrightarrow>
     \<exists>ls' vs'. chart_loop lib rs ls vs = Inr (ls', vs')"
proof (induction rs arbitrary: ls vs)
  case Nil
  then show ?case by simp
next
  case (Cons r rs)
  then obtain d where d: "strptime lib (dim r) ''%Y-%m-%d'' = Inr d" by auto
  from Cons have "\<exists>ls' vs'. chart_loop lib rs (ls @ [strftime lib d ''%b %d''])
      (vs @ [row_num_or_0 r 4 - row_num_or_0 r 5]) = Inr (ls', vs')"
    by simp
  with d show ?case by (simp add: Let_def)
qed

lemma set_slice_step: "set (slice_step n xs) \<subseteq> set xs"
proof (induction n xs rule: slice_step.induct)
  case (1 step)
  show ?case by simp
next
  case (2 step x xs)
  have "set (drop (step - 1) xs) \<subseteq> set xs" by (rule set_drop_subset)
  with 2 show ?case by auto
qed

lemma chart_total:
  assumes "\<forall>r\<in>set (get_rows metrics_data). \<exists>d. strptime lib (dim r) ''%Y-%m-%d'' = Inr d"
  shows "\<exists>c. calculate_subscriber_growth_chart lib metrics_data = Inr c"
proof (cases "get_rows metrics_data = []")
  case True
  then show ?thesis by (simp add: calculate_subscriber_growth_chart_def)
next
  case False
  let ?sel = "slice_step (max 1 (length (get_rows metrics_data) div 6)) (get_rows metrics_data)"
  have "set ?sel \<subseteq> set (get_rows metrics_data)" by (rule set_slice_step)
  then have "\<forall>r\<in>set ?sel. \<exists>d. strptime lib (dim r) ''%Y-%m-%d'' = Inr d"
    using assms by (meson subsetD)
  from chart_loop_total[OF this] obtain ls vs where "chart_loop lib ?sel [] [] = Inr (ls, vs)"
    by blast
  with False show ?thesis by (simp add: calculate_subscriber_growth_chart_def Let_def)
qed

lemma sum_col_total:
  "1 \<le> i \<Longrightarrow> \<forall>r\<in>set rows. i < row_len r \<Longrightarrow> \<exists>s. sum_col i rows = Inr s"
proof (induction rows)
  case Nil
  show ?case by simp
next
  case (Cons r rows)
  then obtain s where "sum_col i rows = Inr s" by auto
  moreover have "row_num r i = Inr (nums r ! (i - 1))" using Cons.prems by (simp add: row_num_def)
  ultimately show ?case by simp
qed

lemma last_view_duration_total:
  "\<forall>r\<in>set rows. 3 < row_len r \<Longrightarrow> \<exists>d. last_view_duration rows = Inr d"
  by (cases "rows = []") (simp_all add: last_view_duration_def row_num_def)

lemma py_round1_fallback: "py_round1 (48 / 10) = 48 / 10"
  by (simp add: py_round1_def py_round_def)

lemma top_video_total:
  assumes "ya (top_video_query c sd ed) = Inr response"
    and "\<forall>r\<in>set (take 1 (get_rows response)). 3 \<le> row_len r"
  shows "\<exists>tv. fetch_top_video ya yd c sd ed = Inr tv
     \<and> (\<forall>r rest. get_rows response = r # rest \<longrightarrow> bv_title tv = video_title yd (dim r))"
proof (cases "get_rows response")
  case Nil
  with assms(1) show ?thesis by (simp add: fetch_top_video_def)
next
  case (Cons r rest)
  with assms(2) have "3 \<le> row_len r" by simp
  then have "row_num r 1 = Inr (nums r ! 0)" "row_num r 2 = Inr (nums r ! 1)"
    by (simp_all add: row_num_def)
  with assms(1) Cons show ?thesis by (simp add: fetch_top_video_def Let_def)
qed

text \<open>What a completed run has computed, and the converse.\<close>

lemma main_Inr:
  assumes "main lib ya yd = Inr rep" and "get_date_range lib 30 = (sd, ed)"
  shows "\<exists>md tv mins dur g l ch.
      ya (channel_metrics_query CHANNEL_ID sd ed) = Inr md
    \<and> fetch_top_video ya yd CHANNEL_ID sd ed = Inr tv
    \<and> sum_col 2 (get_rows md) = Inr mins
    \<and> last_view_duration (get_rows md) = Inr dur
    \<and> sum_col 4 (get_rows md) = Inr g
    \<and> sum_col 5 (get_rows md) = Inr l
    \<and> calculate_subscriber_growth_chart lib md = Inr ch
    \<and> rep = \<lparr>last_updated = strftime lib (now lib) ''%Y-%m-%d'',
             total_watch_hours = py_round1 (mins / 60),
             avg_view_duration = py_int dur,
             duration_change = None,
             click_through_rate = py_round1 (fetch_click_through_rate ya CHANNEL_ID sd ed),
             ctr_change = None,
             subscribers_gained = g,
             subscribers_lost = l,
             subscriber_growth_chart = ch,
             traffic_sources = fetch_traffic_sources ya CHANNEL_ID sd ed,
             best_video = tv,
             video_launches = fetch_recent_videos lib yd CHANNEL_ID sd ed\<rparr>"
  using assms
  by (simp add: main_def Let_def fetch_channel_metrics_def split: sum.splits)

lemma main_eq:
  assumes "get_date_range lib 30 = (sd, ed)"
    and "ya (channel_metrics_query CHANNEL_ID sd ed) = Inr md"
    and "fetch_top_video ya yd CHANNEL_ID sd ed = Inr tv"
    and "sum_col 2 (get_rows md) = Inr mins"
    and "last_view_duration (get_rows md) = Inr dur"
    and "sum_col 4 (get_rows md) = Inr g"
    and "sum_col 5 (get_rows md) = Inr l"
    and "calculate_subscriber_growth_chart lib md = Inr ch"
  shows "main lib ya yd = Inr \<lparr>last_updated = strftime lib (now lib) ''%Y-%m-%d'',
             total_watch_hours = py_round1 (mins / 60),
             avg_view_duration = py_int dur,
             duration_change = None,
             click_through_rate = py_round1 (fetch_click_through_rate ya CHANNEL_ID sd ed),
             ctr_change = None,
             subscribers_gained = g,
             subscribers_lost = l,
             subscriber_growth_chart = ch,
             traffic_sources = fetch_traffic_sources ya CHANNEL_ID sd ed,
             best_video = tv,
             video_launches = fetch_recent_videos lib yd CHANNEL_ID sd ed\<rparr>"
  using assms
  by (simp add: main_def Let_def fetch_channel_metrics_def)

lemma chart_values_selected:
  assumes "calculate_subscriber_growth_chart lib metrics_data = Inr c"
  shows "chart_values c = map (\<lambda>r. row_num_or_0 r 4 - row_num_or_0 r 5)
           (slice_step (max 1 (length (get_rows metrics_data) div 6)) (get_rows metrics_data))
         \<and> length (chart_labels c) = length (chart_values c)"
proof (cases "get_rows metrics_data = []")
  case True
  with assms show ?thesis by (auto simp: calculate_subscriber_growth_chart_def)
next
  case False
  with assms obtain ls vs where
    loop: "chart_loop lib (slice_step (max 1 (length (get_rows metrics_data) div 6))
             (get_rows metrics_data)) [] [] = Inr (ls, vs)"
    and c: "c = \<lparr>chart_labels = ls, chart_values = vs\<rparr>"
    by (auto simp: calculate_subscriber_growth_chart_def Let_def split: sum.splits)
  from chart_loop_result[OF loop] c show ?thesis by simp
qed

text \<open>The run in which every call succeeds, evaluated.\<close>

lemma sample_run:
  "main march_lib
     (analytics_stub (Inr (Some day_rows)) (Inr (Some ctr_rows)) (Inr (Some traffic_rows))
        (Inr (Some top_rows))) data_ok
   = Inr \<lparr>last_updated = ''2024-03-31'', total_watch_hours = 30,
          avg_view_duration = 60, duration_change = None,
          click_through_rate = 3 / 10, ctr_change = None,
          subscribers_gained = 16, subscribers_lost = 9,
          subscriber_growth_chart =
            \<lparr>chart_labels = [''Mar 29'', ''Mar 30'', ''Mar 31''], chart_values = [4, 5, - 2]\<rparr>,
          traffic_sources = \<lparr>search = 42, browse = 31, external = 19, other = 8\<rparr>,
          best_video =
            \<lparr>bv_title = ''Never Gonna'', bv_views = 500, bv_watch_hours = 41 / 2,
             bv_likes = 25\<rparr>,
          video_launches =
            [\<lparr>vl_date = ''Mar 05'', full_date = ''2024-03-05'', vl_title = ''First'',
              vl_views = 1500, vl_likes = 0, vl_video_id = ''vid-a''\<rparr>,
             \<lparr>vl_date = ''Mar 20'', full_date = ''2024-03-20'', vl_title = ''Second'',
              vl_views = 1500, vl_likes = 0, vl_video_id = ''vid-b''\<rparr>]\<rparr>"
  by code_simp

lemma py_int_truncates:
  "\<bar>of_int (py_int d)\<bar> \<le> \<bar>d\<bar> \<and> \<bar>d - of_int (py_int d)\<bar> < 1"
proof (cases "0 \<le> d")
  case True
  then have "py_int d = \<lfloor>d\<rfloor>" by (simp add: py_int_def)
  moreover have "0 \<le> \<lfloor>d\<rfloor>" using True by simp
  moreover have "of_int \<lfloor>d\<rfloor> \<le> d" "d < of_int \<lfloor>d\<rfloor> + 1" by linarith+
  ultimately show ?thesis by simp
next
  case False
  then have "py_int d = \<lceil>d\<rceil>" by (simp add: py_int_def)
  moreover have "\<lceil>d\<rceil> \<le> 0" using False by (simp add: ceiling_le_zero)
  moreover have "d \<le> of_int \<lceil>d\<rceil>" "of_int \<lceil>d\<rceil> < d + 1" by linarith+
  ultimately show ?thesis using False by simp
qed



section \<open>Traffic sources: the sum invariant and the adjustment\<close>

text \<open>
  C2. Whatever the traffic-source query does (it raises, it returns no rows, rows whose
  views add up to zero, short rows, or any other table), the four buckets that
  \<^verbatim>\<open>fetch_traffic_sources\<close> returns add up to exactly 100.
\<close>

theorem traffic_sources_sum_100:
  "search (fetch_traffic_sources youtube_analytics channel_id start_date end_date)
   + browse (fetch_traffic_sources youtube_analytics channel_id start_date end_date)
   + external (fetch_traffic_sources youtube_analytics channel_id start_date end_date)
   + other (fetch_traffic_sources youtube_analytics channel_id start_date end_date) = 100"
proof (cases "traffic_sources_body youtube_analytics channel_id start_date end_date")
  case (Inl e)
  then show ?thesis by (simp add: fetch_traffic_sources_def default_sources_def)
next
  case (Inr s)
  then obtain t where "s = adjust_sources t"
    by (auto simp: traffic_sources_body_def Let_def split: sum.splits)
  with Inr show ?thesis by (simp add: fetch_traffic_sources_def adjust_sources_sum)
qed

text \<open>
  C3 (as stated, refuted). The buckets 41, 31, 19, 8 add up to 99; the adjustment adds
  the missing 1 to the largest bucket, \<open>search\<close>, which becomes 42. The result is
  42, 31, 19, 8: it is not the no-data default 42, 31, 18, 9.
\<close>

theorem adjustment_is_not_default:
  "adjust_sources \<lparr>search = 41, browse = 31, external = 19, other = 8\<rparr>
     = \<lparr>search = 42, browse = 31, external = 19, other = 8\<rparr>
   \<and> adjust_sources \<lparr>search = 41, browse = 31, external = 19, other = 8\<rparr> \<noteq> default_sources"
  by (simp add: adjust_sources_def max_key_def source_get_def source_add_def default_sources_def)

text \<open>
  C3 (amended). When the query succeeds and the four accumulated percentages round to
  41, 31, 19, 8, the largest bucket is \<open>search\<close> and \<^verbatim>\<open>fetch_traffic_sources\<close> returns
  42, 31, 19, 8: one is added to \<open>search\<close>, the other three buckets keep their values.
\<close>

theorem adjustment_41_31_19_8:
  assumes "youtube_analytics (traffic_sources_query channel_id start_date end_date) = Inr response"
    and "sum_col 1 (get_rows response) = Inr total_views"
    and "accumulate_sources total_views (get_rows response)
           \<lparr>search = 0, browse = 0, external = 0, other = 0\<rparr> = Inr s"
    and "round_sources s = \<lparr>search = 41, browse = 31, external = 19, other = 8\<rparr>"
  shows "max_key (round_sources s) = Search
    \<and> fetch_traffic_sources youtube_analytics channel_id start_date end_date
        = \<lparr>search = 42, browse = 31, external = 19, other = 8\<rparr>"
  using assms
  by (simp add: fetch_traffic_sources_def traffic_sources_body_def adjust_sources_def
      max_key_def source_get_def source_add_def)

theorem adjustment_41_31_19_8_witness:
  "fetch_traffic_sources
     (analytics_stub (Inl ApiError) (Inl ApiError) (Inr (Some traffic_rows)) (Inl ApiError))
     ''c'' ''2024-03-01'' ''2024-03-31''
     = \<lparr>search = 42, browse = 31, external = 19, other = 8\<rparr>"
proof -
  let ?ya = "analytics_stub (Inl ApiError) (Inl ApiError) (Inr (Some traffic_rows)) (Inl ApiError)"
  let ?s = "\<lparr>search = 207 / 5, browse = 157 / 5, external = 97 / 5, other = 39 / 5 :: rat\<rparr>"
  have h1: "?ya (traffic_sources_query ''c'' ''2024-03-01'' ''2024-03-31'') = Inr (Some traffic_rows)"
    by (simp add: analytics_stub_def traffic_sources_query_def)
  have h2: "sum_col 1 (get_rows (Some traffic_rows)) = Inr 1000"
    by code_simp
  have h3: "accumulate_sources 1000 (get_rows (Some traffic_rows))
              \<lparr>search = 0, browse = 0, external = 0, other = 0\<rparr> = Inr ?s"
    by code_simp
  have h4: "round_sources ?s = \<lparr>search = 41, browse = 31, external = 19, other = 8\<rparr>"
    by code_simp
  from adjustment_41_31_19_8
         [where youtube_analytics = ?ya and channel_id = "''c''"
            and start_date = "''2024-03-01''" and end_date = "''2024-03-31''",
          OF h1 h2 h3 h4]
  show ?thesis by (rule conjunct2)
qed

section \<open>Channel totals: the view duration\<close>

text \<open>
  C4. For a non-empty table, that is rows followed by a last row, the view duration
  derived on line 349 is \<^verbatim>\<open>row[3]\<close> of the last row, whatever the other rows hold. It is
  not the mean of the column: on the three sample days with durations 100, 200 and
  60.25 the derived value is 60.25 while the mean of the column is 1441/12.
\<close>

theorem view_duration_is_last_row:
  "last_view_duration (rows @ [r]) = row_num r 3
   \<and> last_view_duration (rows @ [\<lparr>dim = day, nums = v # m # duration # rest\<rparr>]) = Inr duration
   \<and> 1 < length day_rows
   \<and> last_view_duration day_rows = Inr (241 / 4)
   \<and> column_mean 3 day_rows = Inr (1441 / 12)"
proof -
  have "last_view_duration (rows @ [r]) = row_num r 3" for r
    by (simp add: last_view_duration_def)
  moreover have "row_num \<lparr>dim = day, nums = v # m # duration # rest\<rparr> 3 = Inr duration"
    by (simp add: row_num_def row_len_def)
  moreover have "1 < length day_rows" by (simp add: day_rows_def)
  moreover have "last_view_duration day_rows = Inr (241 / 4)" by code_simp
  moreover have "column_mean 3 day_rows = Inr (1441 / 12)" by code_simp
  ultimately show ?thesis by simp
qed

section \<open>Which failures a run survives\<close>

text \<open>
  C1 (as stated, refuted). Neither \<^verbatim>\<open>fetch_channel_metrics\<close> nor the analytics query of
  \<^verbatim>\<open>fetch_top_video\<close> stands in a \<^verbatim>\<open>try\<close> block. In the first run the channel-metrics
  query raises, in the second the top-video query; every other call succeeds. Both
  runs end with the exception and write no report.
\<close>

theorem uncaught_query_failures:
  "main march_lib
     (analytics_stub (Inl ApiError) (Inr (Some ctr_rows)) (Inr (Some traffic_rows))
        (Inr (Some top_rows))) data_ok = Inl ApiError
   \<and> main march_lib
     (analytics_stub (Inr (Some day_rows)) (Inr (Some ctr_rows)) (Inr (Some traffic_rows))
        (Inl ApiError)) data_ok = Inl ApiError"
  by code_simp

text \<open>
  C1 (amended). When the channel-metrics query and the top-video query succeed, with
  six columns and a readable date in every daily row and three columns in the top-video
  row, the run completes and writes a report, whatever the other calls do. In that
  report a failed click-through-rate query shows as 4.8, a failed traffic-source query
  as the default distribution, a failure anywhere in the recent-launch derivation as the
  empty list, and a failed title lookup as the placeholder title.
\<close>

theorem run_completes_when_core_queries_succeed:
  assumes dates: "get_date_range lib 30 = (start_date, end_date)"
    and metrics: "youtube_analytics (channel_metrics_query CHANNEL_ID start_date end_date)
                    = Inr metrics_data"
    and rows_ok: "\<forall>r\<in>set (get_rows metrics_data).
                    6 \<le> row_len r \<and> (\<exists>d. strptime lib (dim r) ''%Y-%m-%d'' = Inr d)"
    and top: "youtube_analytics (top_video_query CHANNEL_ID start_date end_date)
                = Inr top_response"
    and top_ok: "\<forall>r\<in>set (take 1 (get_rows top_response)). 3 \<le> row_len r"
  shows "\<exists>rep. main lib youtube_analytics youtube_data = Inr rep
     \<and> (\<forall>e. youtube_analytics (click_through_rate_query CHANNEL_ID start_date end_date) = Inl e
            \<longrightarrow> click_through_rate rep = 48 / 10)
     \<and> (\<forall>e. youtube_analytics (traffic_sources_query CHANNEL_ID start_date end_date) = Inl e
            \<longrightarrow> traffic_sources rep = default_sources)
     \<and> (\<forall>e. recent_videos_body lib youtube_data CHANNEL_ID start_date end_date = Inl e
            \<longrightarrow> video_launches rep = [])
     \<and> (\<forall>r rest e. get_rows top_response = r # rest
                     \<and> video_title_body youtube_data (dim r) = Inl e
            \<longrightarrow> bv_title (best_video rep) = ''Video '' @ take 10 (dim r))"
proof -
  let ?rows = "get_rows metrics_data"
  obtain tv where tv: "fetch_top_video youtube_analytics youtube_data CHANNEL_ID start_date end_date
                         = Inr tv"
    and title: "\<forall>r rest. get_rows top_response = r # rest
                  \<longrightarrow> bv_title tv = video_title youtube_data (dim r)"
    using top_video_total[where ya = youtube_analytics and yd = youtube_data, OF top top_ok] by metis
  have "\<forall>r\<in>set ?rows. 2 < row_len r" "\<forall>r\<in>set ?rows. 3 < row_len r"
       "\<forall>r\<in>set ?rows. 4 < row_len r" "\<forall>r\<in>set ?rows. 5 < row_len r"
    using rows_ok by fastforce+
  then obtain mins dur g l where
        mins: "sum_col 2 ?rows = Inr mins" and dur: "last_view_duration ?rows = Inr dur"
    and g: "sum_col 4 ?rows = Inr g" and l: "sum_col 5 ?rows = Inr l"
    using sum_col_total[of 2 ?rows] sum_col_total[of 4 ?rows] sum_col_total[of 5 ?rows]
      last_view_duration_total[of ?rows]
    by auto
  have "\<forall>r\<in>set ?rows. \<exists>d. strptime lib (dim r) ''%Y-%m-%d'' = Inr d"
    using rows_ok by simp
  then obtain ch where ch: "calculate_subscriber_growth_chart lib metrics_data = Inr ch"
    using chart_total by metis
  note m = main_eq[where ya = youtube_analytics and yd = youtube_data, OF dates metrics tv mins dur g l ch]
  have ctr: "py_round1 (fetch_click_through_rate youtube_analytics CHANNEL_ID start_date end_date)
               = 48 / 10"
    if "youtube_analytics (click_through_rate_query CHANNEL_ID start_date end_date) = Inl e" for e
  proof -
    have "fetch_click_through_rate youtube_analytics CHANNEL_ID start_date end_date = 48 / 10"
      using that by (simp add: fetch_click_through_rate_def)
    then show ?thesis by (simp only: py_round1_fallback)
  qed
  have tr: "youtube_analytics (traffic_sources_query CHANNEL_ID start_date end_date) = Inl e \<Longrightarrow>
     fetch_traffic_sources youtube_analytics CHANNEL_ID start_date end_date = default_sources"
    for e
    by (simp add: fetch_traffic_sources_def traffic_sources_body_def)
  have rv: "recent_videos_body lib youtube_data CHANNEL_ID start_date end_date = Inl e \<Longrightarrow>
     fetch_recent_videos lib youtube_data CHANNEL_ID start_date end_date = []" for e
    by (simp add: fetch_recent_videos_def)
  have ti: "get_rows top_response = r # rest \<Longrightarrow> video_title_body youtube_data (dim r) = Inl e
     \<Longrightarrow> bv_title tv = ''Video '' @ take 10 (dim r)" for r rest e
    using title by (simp add: video_title_def)
  show ?thesis
    unfolding m
    apply (rule exI, rule conjI, rule refl)
    apply (simp only: report.simps)
    apply (intro conjI allI impI)
       apply (erule ctr)
      apply (erule tr)
     apply (erule rv)
    apply (elim conjE, erule (1) ti)
    done
qed

theorem run_completes_witness:
  "\<exists>rep. main march_lib
       (analytics_stub (Inr (Some day_rows)) (Inl ApiError) (Inl ApiError) (Inr (Some top_rows)))
       data_down = Inr rep
     \<and> click_through_rate rep = 48 / 10
     \<and> traffic_sources rep = default_sources
     \<and> video_launches rep = []
     \<and> bv_title (best_video rep) = ''Video dQw4w9WgXc''"
proof -
  let ?ya = "analytics_stub (Inr (Some day_rows)) (Inl ApiError) (Inl ApiError) (Inr (Some top_rows))"
  have dates: "get_date_range march_lib 30 = (''2024-03-01'', ''2024-03-31'')"
    by (simp add: get_date_range_def march_lib_def)
  have metrics: "?ya (channel_metrics_query CHANNEL_ID ''2024-03-01'' ''2024-03-31'')
                   = Inr (Some day_rows)"
    by (simp add: analytics_stub_def channel_metrics_query_def)
  have rows_ok: "\<forall>r\<in>set (get_rows (Some day_rows)).
                    6 \<le> row_len r \<and> (\<exists>d. strptime march_lib (dim r) ''%Y-%m-%d'' = Inr d)"
    by (simp add: get_rows_def day_rows_def row_len_def march_lib_def)
  have top: "?ya (top_video_query CHANNEL_ID ''2024-03-01'' ''2024-03-31'') = Inr (Some top_rows)"
    by (simp add: analytics_stub_def top_video_query_def)
  have top_ok: "\<forall>r\<in>set (take 1 (get_rows (Some top_rows))). 3 \<le> row_len r"
    by (simp add: get_rows_def top_rows_def row_len_def)
  have ctr: "?ya (click_through_rate_query CHANNEL_ID ''2024-03-01'' ''2024-03-31'') = Inl ApiError"
    by (simp add: analytics_stub_def click_through_rate_query_def)
  have traffic: "?ya (traffic_sources_query CHANNEL_ID ''2024-03-01'' ''2024-03-31'') = Inl ApiError"
    by (simp add: analytics_stub_def traffic_sources_query_def)
  have recent: "recent_videos_body march_lib data_down CHANNEL_ID ''2024-03-01'' ''2024-03-31''
                  = Inl ApiError"
    by (simp add: recent_videos_body_def march_lib_def data_down_def)
  have rows: "get_rows (Some top_rows) = \<lparr>dim = ''dQw4w9WgXcQ'', nums = [500, 1230, 25]\<rparr> # []"
    by (simp add: get_rows_def top_rows_def)
  have title: "video_title_body data_down (dim \<lparr>dim = ''dQw4w9WgXcQ'', nums = [500, 1230, 25]\<rparr>)
                 = Inl ApiError"
    by (simp add: video_title_body_def data_down_def)
  from run_completes_when_core_queries_succeed
         [where youtube_analytics = ?ya and youtube_data = data_down,
          OF dates metrics rows_ok top top_ok]
  obtain rep where rep: "main march_lib ?ya data_down = Inr rep"
    and c1: "\<forall>e. ?ya (click_through_rate_query CHANNEL_ID ''2024-03-01'' ''2024-03-31'') = Inl e
            \<longrightarrow> click_through_rate rep = 48 / 10"
    and c2: "\<forall>e. ?ya (traffic_sources_query CHANNEL_ID ''2024-03-01'' ''2024-03-31'') = Inl e
            \<longrightarrow> traffic_sources rep = default_sources"
    and c3: "\<forall>e. recent_videos_body march_lib data_down CHANNEL_ID ''2024-03-01'' ''2024-03-31'' = Inl e
            \<longrightarrow> video_launches rep = []"
    and c4: "\<forall>r rest e. get_rows (Some top_rows) = r # rest
                     \<and> video_title_body data_down (dim r) = Inl e
            \<longrightarrow> bv_title (best_video rep) = ''Video '' @ take 10 (dim r)"
    by (elim exE conjE)
  have "click_through_rate rep = 48 / 10" using c1[rule_format, OF ctr] .
  moreover have "traffic_sources rep = default_sources" using c2[rule_format, OF traffic] .
  moreover have "video_launches rep = []" using c3[rule_format, OF recent] .
  moreover have "bv_title (best_video rep) = ''Video '' @ take 10 (dim \<lparr>dim = ''dQw4w9WgXcQ'', nums = [500, 1230, 25]\<rparr>)"
    using c4[rule_format, OF conjI[OF rows title]] .
  then have "bv_title (best_video rep) = ''Video dQw4w9WgXc''" by simp
  ultimately show ?thesis using rep by (intro exI[where x = rep] conjI)
qed

section \<open>Subscriber growth chart: downsampling\<close>

text \<open>
  C6. Let \<open>N = max 1 (length rows div 6)\<close>. When the dates of the rows can be read, the
  chart is computed and holds one point for each of the rows at the indices
  \<open>0, N, 2N, \<dots>\<close>: the net growth of that row. For 30 rows \<open>N = 5\<close> and the chart has
  exactly the 6 points of the rows 0, 5, 10, 15, 20, 25; for 3 rows \<open>N = 1\<close> and the chart
  has the points of all 3 rows.
\<close>

theorem chart_downsampling:
  assumes rows: "rows = get_rows metrics_data"
    and N: "N = max 1 (length rows div 6)"
    and dates: "\<forall>r\<in>set rows. \<exists>d. strptime lib (dim r) ''%Y-%m-%d'' = Inr d"
  shows "\<exists>c. calculate_subscriber_growth_chart lib metrics_data = Inr c
     \<and> chart_values c
           = map (\<lambda>k. row_num_or_0 (rows ! (k * N)) 4 - row_num_or_0 (rows ! (k * N)) 5)
               [0..<(length rows + N - 1) div N]
     \<and> length (chart_labels c) = length (chart_values c)
     \<and> (length rows = 30 \<longrightarrow> N = 5 \<and> length (chart_values c) = 6
          \<and> chart_values c = map (\<lambda>i. row_num_or_0 (rows ! i) 4 - row_num_or_0 (rows ! i) 5)
               [0, 5, 10, 15, 20, 25])
     \<and> (length rows = 3 \<longrightarrow> N = 1 \<and> length (chart_values c) = 3
          \<and> chart_values c = map (\<lambda>r. row_num_or_0 r 4 - row_num_or_0 r 5) rows)"
proof -
  obtain c where c: "calculate_subscriber_growth_chart lib metrics_data = Inr c"
    using chart_total dates rows by metis
  have N1: "1 \<le> N" using N by simp
  have sel: "chart_values c = map (\<lambda>r. row_num_or_0 r 4 - row_num_or_0 r 5) (slice_step N rows)"
    and len: "length (chart_labels c) = length (chart_values c)"
    using chart_values_selected[OF c] rows N by simp_all
  have gen: "chart_values c
           = map (\<lambda>k. row_num_or_0 (rows ! (k * N)) 4 - row_num_or_0 (rows ! (k * N)) 5)
               [0..<(length rows + N - 1) div N]"
    unfolding sel slice_step_nth[OF N1] by (simp add: o_def)
  have thirty: "N = 5 \<and> length (chart_values c) = 6
          \<and> chart_values c = map (\<lambda>i. row_num_or_0 (rows ! i) 4 - row_num_or_0 (rows ! i) 5)
               [0, 5, 10, 15, 20, 25]" if l: "length rows = 30"
  proof -
    have n: "N = 5" using N l by simp
    have "[0..<(length rows + N - 1) div N] = [0, 1, 2, 3, 4, 5]"
      unfolding n l by (simp add: upt_rec)
    then show ?thesis using gen n by simp
  qed
  have three: "N = 1 \<and> length (chart_values c) = 3
          \<and> chart_values c = map (\<lambda>r. row_num_or_0 r 4 - row_num_or_0 r 5) rows"
    if l: "length rows = 3"
  proof -
    have n: "N = 1" using N l by simp
    have "slice_step 1 rows = rows"
      by (induction rows) simp_all
    then show ?thesis using sel n l by simp
  qed
  show ?thesis
    using c gen len thirty three by blast
qed

theorem chart_downsampling_witness:
  "(\<exists>c. calculate_subscriber_growth_chart march_lib (Some thirty_rows) = Inr c
        \<and> length (chart_values c) = 6 \<and> chart_values c = [0, 5, 10, 15, 20, 25])
   \<and> (\<exists>c. calculate_subscriber_growth_chart march_lib (Some day_rows) = Inr c
        \<and> length (chart_values c) = 3 \<and> chart_values c = [4, 5, - 2])"
proof -
  have "length thirty_rows = 30" by (simp add: thirty_rows_def)
  moreover have "\<forall>r\<in>set thirty_rows. \<exists>d. strptime march_lib (dim r) ''%Y-%m-%d'' = Inr d"
    by (simp add: thirty_rows_def march_lib_def)
  ultimately obtain c where
    "calculate_subscriber_growth_chart march_lib (Some thirty_rows) = Inr c"
    "length (chart_values c) = 6"
    "chart_values c
       = map (\<lambda>i. row_num_or_0 (thirty_rows ! i) 4 - row_num_or_0 (thirty_rows ! i) 5)
           [0, 5, 10, 15, 20, 25]"
    using chart_downsampling[where lib = march_lib and metrics_data = "Some thirty_rows"
        and rows = thirty_rows and N = 5]
    by (auto simp: get_rows_def)
  moreover have "map (\<lambda>i. row_num_or_0 (thirty_rows ! i) 4 - row_num_or_0 (thirty_rows ! i) 5)
                   [0, 5, 10, 15, 20, 25] = [0, 5, 10, 15, 20, 25]"
    by code_simp
  ultimately have thirty:
    "\<exists>c. calculate_subscriber_growth_chart march_lib (Some thirty_rows) = Inr c
        \<and> length (chart_values c) = 6 \<and> chart_values c = [0, 5, 10, 15, 20, 25]"
    by simp
  have "length day_rows = 3" by (simp add: day_rows_def)
  moreover have "\<forall>r\<in>set day_rows. \<exists>d. strptime march_lib (dim r) ''%Y-%m-%d'' = Inr d"
    by (simp add: day_rows_def march_lib_def)
  ultimately obtain c' where
    "calculate_subscriber_growth_chart march_lib (Some day_rows) = Inr c'"
    "length (chart_values c') = 3"
    "chart_values c' = map (\<lambda>r. row_num_or_0 r 4 - row_num_or_0 r 5) day_rows"
    using chart_downsampling[where lib = march_lib and metrics_data = "Some day_rows"
        and rows = day_rows and N = 1]
    by (auto simp: get_rows_def)
  moreover have "map (\<lambda>r. row_num_or_0 r 4 - row_num_or_0 r 5) day_rows = [4, 5, - 2]"
    by (simp add: day_rows_def row_num_or_0_def row_len_def)
  ultimately have three:
    "\<exists>c. calculate_subscriber_growth_chart march_lib (Some day_rows) = Inr c
        \<and> length (chart_values c) = 3 \<and> chart_values c = [4, 5, - 2]"
    by simp
  from thirty three show ?thesis by (rule conjI)
qed

section \<open>The report fields\<close>

text \<open>
  C7. When the channel-metrics response has no rows and the top-video derivation
  returns, the run completes and its report has \<^verbatim>\<open>total_watch_hours\<close> 0,
  \<^verbatim>\<open>avg_view_duration\<close> 0 and the empty chart: the empty table raises nothing.
\<close>

theorem empty_metrics_report:
  assumes dates: "get_date_range lib 30 = (start_date, end_date)"
    and metrics: "youtube_analytics (channel_metrics_query CHANNEL_ID start_date end_date)
                    = Inr metrics_data"
    and empty: "get_rows metrics_data = []"
    and top: "fetch_top_video youtube_analytics youtube_data CHANNEL_ID start_date end_date
                = Inr top_video"
  shows "\<exists>rep. main lib youtube_analytics youtube_data = Inr rep
     \<and> total_watch_hours rep = 0
     \<and> avg_view_duration rep = 0
     \<and> subscriber_growth_chart rep = \<lparr>chart_labels = [], chart_values = []\<rparr>"
proof -
  have mins: "sum_col 2 (get_rows metrics_data) = Inr 0"
    and g: "sum_col 4 (get_rows metrics_data) = Inr 0"
    and l: "sum_col 5 (get_rows metrics_data) = Inr 0"
    and dur: "last_view_duration (get_rows metrics_data) = Inr 0"
    and ch: "calculate_subscriber_growth_chart lib metrics_data
               = Inr \<lparr>chart_labels = [], chart_values = []\<rparr>"
    using empty by (simp_all add: last_view_duration_def calculate_subscriber_growth_chart_def)
  have zero: "py_round1 (0 / 60) = 0" "py_int 0 = 0"
    by (simp_all add: py_round1_def py_round_def py_int_def)
  show ?thesis
    unfolding main_eq[where ya = youtube_analytics and yd = youtube_data,
                      OF dates metrics top mins dur g l ch]
    by (rule exI, rule conjI, rule refl) (simp only: report.simps zero simp_thms)
qed

theorem empty_metrics_report_witness:
  "\<exists>rep. main march_lib
       (analytics_stub (Inr (Some [])) (Inr (Some ctr_rows)) (Inr (Some traffic_rows))
          (Inr (Some top_rows))) data_ok = Inr rep
     \<and> total_watch_hours rep = 0
     \<and> avg_view_duration rep = 0
     \<and> subscriber_growth_chart rep = \<lparr>chart_labels = [], chart_values = []\<rparr>"
proof -
  let ?ya = "analytics_stub (Inr (Some [])) (Inr (Some ctr_rows)) (Inr (Some traffic_rows))
               (Inr (Some top_rows))"
  have dates: "get_date_range march_lib 30 = (''2024-03-01'', ''2024-03-31'')"
    by (simp add: get_date_range_def march_lib_def)
  have metrics: "?ya (channel_metrics_query CHANNEL_ID ''2024-03-01'' ''2024-03-31'')
                   = Inr (Some [])"
    by (simp add: analytics_stub_def channel_metrics_query_def)
  have empty: "get_rows (Some []) = []"
    by (simp add: get_rows_def)
  have top: "fetch_top_video ?ya data_ok CHANNEL_ID ''2024-03-01'' ''2024-03-31''
               = Inr \<lparr>bv_title = ''Never Gonna'', bv_views = 500, bv_watch_hours = 41 / 2,
                      bv_likes = 25\<rparr>"
    by code_simp
  show ?thesis
    by (rule empty_metrics_report[where youtube_analytics = ?ya and youtube_data = data_ok,
          OF dates metrics empty top])
qed

text \<open>
  C10. In the report of a completed run over a non-empty table, \<^verbatim>\<open>avg_view_duration\<close> is
  \<^verbatim>\<open>int\<close> of \<^verbatim>\<open>row[3]\<close> of the last row: the integer obtained by truncating that number
  toward zero, that is the integer \<open>t\<close> with \<open>\<bar>t\<bar> \<le> \<bar>d\<bar>\<close> and \<open>\<bar>d - t\<bar> < 1\<close>. A last
  duration of 60.25 is written as 60.
\<close>

theorem avg_view_duration_truncated:
  assumes run: "main lib youtube_analytics youtube_data = Inr rep"
    and dates: "get_date_range lib 30 = (start_date, end_date)"
    and metrics: "youtube_analytics (channel_metrics_query CHANNEL_ID start_date end_date)
                    = Inr metrics_data"
    and rows: "get_rows metrics_data = rows @ [r]"
  shows "\<exists>d. row_num r 3 = Inr d
     \<and> avg_view_duration rep = py_int d
     \<and> \<bar>of_int (avg_view_duration rep)\<bar> \<le> \<bar>d\<bar>
     \<and> \<bar>d - of_int (avg_view_duration rep)\<bar> < 1"
proof -
  from main_Inr[OF run dates] metrics obtain dur where
    dur: "last_view_duration (get_rows metrics_data) = Inr dur"
    and rep: "avg_view_duration rep = py_int dur"
    by auto
  from dur rows have d: "row_num r 3 = Inr dur"
    by (simp add: last_view_duration_def)
  from d rep py_int_truncates[of dur] show ?thesis by simp
qed

theorem avg_view_duration_truncated_witness:
  "row_num \<lparr>dim = ''2024-03-31'', nums = [90, 300, 241 / 4, 4, 6]\<rparr> 3 = Inr (241 / 4)
   \<and> map_sum id avg_view_duration
        (main march_lib
           (analytics_stub (Inr (Some day_rows)) (Inr (Some ctr_rows)) (Inr (Some traffic_rows))
              (Inr (Some top_rows))) data_ok) = Inr 60"
proof -
  let ?ya = "analytics_stub (Inr (Some day_rows)) (Inr (Some ctr_rows)) (Inr (Some traffic_rows))
               (Inr (Some top_rows))"
  let ?r = "\<lparr>dim = ''2024-03-31'', nums = [90, 300, 241 / 4, 4, 6]\<rparr>"
  obtain rep where run: "main march_lib ?ya data_ok = Inr rep"
    using sample_run by simp
  have dates: "get_date_range march_lib 30 = (''2024-03-01'', ''2024-03-31'')"
    by (simp add: get_date_range_def march_lib_def)
  have metrics: "?ya (channel_metrics_query CHANNEL_ID ''2024-03-01'' ''2024-03-31'')
                   = Inr (Some day_rows)"
    by (simp add: analytics_stub_def channel_metrics_query_def)
  have rows: "get_rows (Some day_rows)
                = [\<lparr>dim = ''2024-03-29'', nums = [100, 600, 100, 5, 1]\<rparr>,
                   \<lparr>dim = ''2024-03-30'', nums = [120, 900, 200, 7, 2]\<rparr>] @ [?r]"
    by (simp add: get_rows_def day_rows_def)
  have r3: "row_num ?r 3 = Inr (241 / 4)"
    by (simp add: row_num_def row_len_def)
  from avg_view_duration_truncated
         [where youtube_analytics = ?ya and youtube_data = data_ok, OF run dates metrics rows]
  obtain d where d: "row_num ?r 3 = Inr d" and avg: "avg_view_duration rep = py_int d"
    by blast
  from d have "241 / 4 = d" unfolding r3 by (simp only: sum.inject)
  with avg have "avg_view_duration rep = py_int (241 / 4)" by (simp only:)
  also have "py_int (241 / 4) = 60" by code_simp
  finally show ?thesis using run r3 by simp
qed


text \<open>
  A remark on the column that is averaged. The rows of the click-through-rate query
  start with the day, so \<^verbatim>\<open>row[3]\<close> is \<^verbatim>\<open>cardClicks\<close> and the rate is \<^verbatim>\<open>row[4]\<close>;
  line 107 averages \<^verbatim>\<open>row[3]\<close>. On the two sample days the mean of the rate column is
  1/8 and the derivation returns 5, the mean of the clicks.
\<close>

lemma click_through_rate_averages_column_3:
  "fetch_click_through_rate
     (analytics_stub (Inr (Some day_rows)) (Inr (Some click_rows)) (Inr (Some traffic_rows))
        (Inr (Some top_rows))) CHANNEL_ID ''2024-03-01'' ''2024-03-31'' = 5
   \<and> column_mean 3 click_rows = Inr 5
   \<and> column_mean 4 click_rows = Inr (1 / 8)"
  by code_simp



section \<open>Top video\<close>

text \<open>
  C8. When the top-video query returns no rows, \<^verbatim>\<open>fetch_top_video\<close> returns the record
  with the title "No videos in this period" and three zeros. When the title lookup
  raises (the call itself, or the missing title of the first item), the title is
  \<^verbatim>\<open>'Video '\<close> followed by the first ten characters of the video identifier, and
  \<^verbatim>\<open>fetch_top_video\<close> still returns a record.
\<close>

theorem top_video_fallbacks:
  "(youtube_analytics (top_video_query channel_id start_date end_date) = Inr response
      \<and> get_rows response = []
    \<longrightarrow> fetch_top_video youtube_analytics youtube_data channel_id start_date end_date
          = Inr \<lparr>bv_title = ''No videos in this period'', bv_views = 0, bv_watch_hours = 0,
                 bv_likes = 0\<rparr>)
   \<and> (video_title_body youtube_data video_id = Inl e
    \<longrightarrow> video_title youtube_data video_id = ''Video '' @ take 10 video_id)
   \<and> (videos_list_snippet youtube_data video_id = Inl e
    \<longrightarrow> video_title youtube_data video_id = ''Video '' @ take 10 video_id)
   \<and> (youtube_analytics (top_video_query channel_id start_date end_date) = Inr response
      \<and> get_rows response = r # rest \<and> 3 \<le> row_len r
      \<and> video_title_body youtube_data (dim r) = Inl e
    \<longrightarrow> (\<exists>top_video.
           fetch_top_video youtube_analytics youtube_data channel_id start_date end_date
             = Inr top_video
           \<and> bv_title top_video = ''Video '' @ take 10 (dim r)))"
proof (intro conjI impI)
  assume "youtube_analytics (top_video_query channel_id start_date end_date) = Inr response
      \<and> get_rows response = []"
  then show "fetch_top_video youtube_analytics youtube_data channel_id start_date end_date
          = Inr \<lparr>bv_title = ''No videos in this period'', bv_views = 0, bv_watch_hours = 0,
                 bv_likes = 0\<rparr>"
    by (simp add: fetch_top_video_def)
next
  assume "video_title_body youtube_data video_id = Inl e"
  then show "video_title youtube_data video_id = ''Video '' @ take 10 video_id"
    by (simp add: video_title_def)
next
  assume "videos_list_snippet youtube_data video_id = Inl e"
  then have "video_title_body youtube_data video_id = Inl e"
    by (simp add: video_title_body_def)
  then show "video_title youtube_data video_id = ''Video '' @ take 10 video_id"
    by (simp add: video_title_def)
next
  assume a: "youtube_analytics (top_video_query channel_id start_date end_date) = Inr response
      \<and> get_rows response = r # rest \<and> 3 \<le> row_len r
      \<and> video_title_body youtube_data (dim r) = Inl e"
  then have q: "youtube_analytics (top_video_query channel_id start_date end_date) = Inr response"
    and rows: "get_rows response = r # rest" and len: "3 \<le> row_len r"
    and lookup: "video_title_body youtube_data (dim r) = Inl e"
    by simp_all
  have "\<forall>r\<in>set (take 1 (get_rows response)). 3 \<le> row_len r"
    using rows len by simp
  from top_video_total[where ya = youtube_analytics and yd = youtube_data, OF q this]
  obtain top_video where
    tv: "fetch_top_video youtube_analytics youtube_data channel_id start_date end_date
           = Inr top_video"
    and title: "\<forall>r rest. get_rows response = r # rest
                  \<longrightarrow> bv_title top_video = video_title youtube_data (dim r)"
    by (elim exE conjE)
  from title[rule_format, OF rows] lookup
  have "bv_title top_video = ''Video '' @ take 10 (dim r)"
    by (simp add: video_title_def)
  with tv show "\<exists>top_video.
           fetch_top_video youtube_analytics youtube_data channel_id start_date end_date
             = Inr top_video
           \<and> bv_title top_video = ''Video '' @ take 10 (dim r)"
    by (intro exI[where x = top_video] conjI)
qed

theorem top_video_fallbacks_witness:
  "fetch_top_video
     (analytics_stub (Inr (Some day_rows)) (Inr (Some ctr_rows)) (Inr (Some traffic_rows))
        (Inr (Some []))) data_ok CHANNEL_ID ''2024-03-01'' ''2024-03-31''
     = Inr \<lparr>bv_title = ''No videos in this period'', bv_views = 0, bv_watch_hours = 0,
            bv_likes = 0\<rparr>
   \<and> video_title data_down ''dQw4w9WgXcQ'' = ''Video dQw4w9WgXc''
   \<and> video_title data_down ''abc'' = ''Video abc''
   \<and> (\<exists>top_video.
         fetch_top_video
           (analytics_stub (Inr (Some day_rows)) (Inr (Some ctr_rows)) (Inr (Some traffic_rows))
              (Inr (Some top_rows))) data_down CHANNEL_ID ''2024-03-01'' ''2024-03-31''
           = Inr top_video
         \<and> bv_title top_video = ''Video dQw4w9WgXc'')"
proof -
  let ?none = "analytics_stub (Inr (Some day_rows)) (Inr (Some ctr_rows))
                 (Inr (Some traffic_rows)) (Inr (Some []))"
  let ?ya = "analytics_stub (Inr (Some day_rows)) (Inr (Some ctr_rows))
               (Inr (Some traffic_rows)) (Inr (Some top_rows))"
  let ?r = "\<lparr>dim = ''dQw4w9WgXcQ'', nums = [500, 1230, 25]\<rparr>"
  note t = top_video_fallbacks
  have h1: "?none (top_video_query CHANNEL_ID ''2024-03-01'' ''2024-03-31'') = Inr (Some [])
              \<and> get_rows (Some []) = []"
    by (simp add: analytics_stub_def top_video_query_def get_rows_def)
  have first: "fetch_top_video ?none data_ok CHANNEL_ID ''2024-03-01'' ''2024-03-31''
     = Inr \<lparr>bv_title = ''No videos in this period'', bv_views = 0, bv_watch_hours = 0,
            bv_likes = 0\<rparr>"
    using t[where youtube_analytics = ?none and youtube_data = data_ok,
            THEN conjunct1, rule_format, OF h1] .
  have h2: "video_title_body data_down ''dQw4w9WgXcQ'' = Inl ApiError"
    by (simp add: video_title_body_def data_down_def)
  have "video_title data_down ''dQw4w9WgXcQ'' = ''Video '' @ take 10 ''dQw4w9WgXcQ''"
    using t[where youtube_data = data_down, THEN conjunct2, THEN conjunct1, rule_format, OF h2] .
  then have second: "video_title data_down ''dQw4w9WgXcQ'' = ''Video dQw4w9WgXc''"
    by simp
  have h4: "?ya (top_video_query CHANNEL_ID ''2024-03-01'' ''2024-03-31'') = Inr (Some top_rows)
      \<and> get_rows (Some top_rows) = ?r # [] \<and> 3 \<le> row_len ?r
      \<and> video_title_body data_down (dim ?r) = Inl ApiError"
    by (simp add: analytics_stub_def top_video_query_def get_rows_def top_rows_def row_len_def
        video_title_body_def data_down_def)
  have "\<exists>top_video.
         fetch_top_video ?ya data_down CHANNEL_ID ''2024-03-01'' ''2024-03-31'' = Inr top_video
         \<and> bv_title top_video = ''Video '' @ take 10 (dim ?r)"
    using t[where youtube_analytics = ?ya and youtube_data = data_down,
            THEN conjunct2, THEN conjunct2, THEN conjunct2, rule_format, OF h4] .
  then have third: "\<exists>top_video.
         fetch_top_video ?ya data_down CHANNEL_ID ''2024-03-01'' ''2024-03-31'' = Inr top_video
         \<and> bv_title top_video = ''Video dQw4w9WgXc''"
    by simp
  have h3: "videos_list_snippet data_down ''abc'' = Inl ApiError"
    by (simp add: data_down_def)
  have "video_title data_down ''abc'' = ''Video '' @ take 10 ''abc''"
    using t[where youtube_data = data_down,
            THEN conjunct2, THEN conjunct2, THEN conjunct1, rule_format, OF h3] .
  then have short: "video_title data_down ''abc'' = ''Video abc''"
    by simp
  from first second short third show ?thesis by (intro conjI)
qed

section \<open>Recent launches\<close>

text \<open>
  C9. The list that \<^verbatim>\<open>fetch_recent_videos\<close> returns is always sorted ascending by
  \<^verbatim>\<open>full_date\<close>. When the search and every lookup succeed it holds exactly the launches
  collected by the loop, in whatever order the API listed them; when anything in the
  \<^verbatim>\<open>try\<close> block raises it is the empty list.
\<close>

theorem video_launches_sorted:
  "sorted (map full_date (fetch_recent_videos lib youtube_data channel_id start_date end_date))
   \<and> (recent_videos_body lib youtube_data channel_id start_date end_date = Inl e
    \<longrightarrow> fetch_recent_videos lib youtube_data channel_id start_date end_date = [])
   \<and> (strptime lib start_date ''%Y-%m-%d'' = Inr start_datetime
      \<and> search_list youtube_data
           \<lparr>sq_channelId = channel_id,
            sq_publishedAfter = strftime lib start_datetime ''%Y-%m-%dT00:00:00Z'',
            sq_maxResults = 50, sq_order = ''date''\<rparr> = Inr search_response
      \<and> launches_loop lib youtube_data (get_items search_response) [] = Inr launches
    \<longrightarrow> mset (fetch_recent_videos lib youtube_data channel_id start_date end_date)
          = mset launches)"
proof (intro conjI impI)
  show "sorted (map full_date
          (fetch_recent_videos lib youtube_data channel_id start_date end_date))"
  proof (cases "recent_videos_body lib youtube_data channel_id start_date end_date")
    case (Inl e)
    then show ?thesis by (simp add: fetch_recent_videos_def)
  next
    case (Inr vs)
    then obtain ls where "vs = sort_key full_date ls"
      by (auto simp: recent_videos_body_def Let_def split: sum.splits)
    with Inr show ?thesis by (simp add: fetch_recent_videos_def)
  qed
next
  assume "recent_videos_body lib youtube_data channel_id start_date end_date = Inl e"
  then show "fetch_recent_videos lib youtube_data channel_id start_date end_date = []"
    by (simp add: fetch_recent_videos_def)
next
  assume "strptime lib start_date ''%Y-%m-%d'' = Inr start_datetime
      \<and> search_list youtube_data
           \<lparr>sq_channelId = channel_id,
            sq_publishedAfter = strftime lib start_datetime ''%Y-%m-%dT00:00:00Z'',
            sq_maxResults = 50, sq_order = ''date''\<rparr> = Inr search_response
      \<and> launches_loop lib youtube_data (get_items search_response) [] = Inr launches"
  then have "recent_videos_body lib youtube_data channel_id start_date end_date
               = Inr (sort_key full_date launches)"
    by (simp add: recent_videos_body_def)
  then show "mset (fetch_recent_videos lib youtube_data channel_id start_date end_date)
               = mset launches"
    by (simp add: fetch_recent_videos_def)
qed

theorem video_launches_sorted_witness:
  "map full_date (fetch_recent_videos march_lib data_ok CHANNEL_ID ''2024-03-01'' ''2024-03-31'')
     = [''2024-03-05'', ''2024-03-20'']
   \<and> sorted [''2024-03-05'', ''2024-03-20'']
   \<and> fetch_recent_videos march_lib data_down CHANNEL_ID ''2024-03-01'' ''2024-03-31'' = []
   \<and> mset (fetch_recent_videos march_lib data_ok CHANNEL_ID ''2024-03-01'' ''2024-03-31'')
       = mset [\<lparr>vl_date = ''Mar 20'', full_date = ''2024-03-20'', vl_title = ''Second'',
                vl_views = 1500, vl_likes = 0, vl_video_id = ''vid-b''\<rparr>,
               \<lparr>vl_date = ''Mar 05'', full_date = ''2024-03-05'', vl_title = ''First'',
                vl_views = 1500, vl_likes = 0, vl_video_id = ''vid-a''\<rparr>]"
proof -
  note t = video_launches_sorted
  have ev: "map full_date
              (fetch_recent_videos march_lib data_ok CHANNEL_ID ''2024-03-01'' ''2024-03-31'')
            = [''2024-03-05'', ''2024-03-20'']"
    by code_simp
  have "sorted (map full_date
          (fetch_recent_videos march_lib data_ok CHANNEL_ID ''2024-03-01'' ''2024-03-31''))"
    using t[where lib = march_lib and youtube_data = data_ok, THEN conjunct1] .
  then have srt: "sorted [''2024-03-05'', ''2024-03-20'']"
    by (simp only: ev)
  have down: "recent_videos_body march_lib data_down CHANNEL_ID ''2024-03-01'' ''2024-03-31''
                = Inl ApiError"
    by (simp add: recent_videos_body_def march_lib_def data_down_def)
  have empty: "fetch_recent_videos march_lib data_down CHANNEL_ID ''2024-03-01'' ''2024-03-31''
                 = []"
    using t[where lib = march_lib and youtube_data = data_down,
            THEN conjunct2, THEN conjunct1, rule_format, OF down] .
  have ok: "strptime march_lib ''2024-03-01'' ''%Y-%m-%d'' = Inr ''2024-03-01''
      \<and> search_list data_ok
           \<lparr>sq_channelId = CHANNEL_ID,
            sq_publishedAfter = strftime march_lib ''2024-03-01'' ''%Y-%m-%dT00:00:00Z'',
            sq_maxResults = 50, sq_order = ''date''\<rparr> = Inr (Some search_items)
      \<and> launches_loop march_lib data_ok (get_items (Some search_items)) []
          = Inr [\<lparr>vl_date = ''Mar 20'', full_date = ''2024-03-20'', vl_title = ''Second'',
                  vl_views = 1500, vl_likes = 0, vl_video_id = ''vid-b''\<rparr>,
                 \<lparr>vl_date = ''Mar 05'', full_date = ''2024-03-05'', vl_title = ''First'',
                  vl_views = 1500, vl_likes = 0, vl_video_id = ''vid-a''\<rparr>]"
  proof (intro conjI)
    show "strptime march_lib ''2024-03-01'' ''%Y-%m-%d'' = Inr ''2024-03-01''"
      by (simp add: march_lib_def)
    show "search_list data_ok
           \<lparr>sq_channelId = CHANNEL_ID,
            sq_publishedAfter = strftime march_lib ''2024-03-01'' ''%Y-%m-%dT00:00:00Z'',
            sq_maxResults = 50, sq_order = ''date''\<rparr> = Inr (Some search_items)"
      by (simp add: data_ok_def)
    show "launches_loop march_lib data_ok (get_items (Some search_items)) []
          = Inr [\<lparr>vl_date = ''Mar 20'', full_date = ''2024-03-20'', vl_title = ''Second'',
                  vl_views = 1500, vl_likes = 0, vl_video_id = ''vid-b''\<rparr>,
                 \<lparr>vl_date = ''Mar 05'', full_date = ''2024-03-05'', vl_title = ''First'',
                  vl_views = 1500, vl_likes = 0, vl_video_id = ''vid-a''\<rparr>]"
      by code_simp
  qed
  note all = t[where lib = march_lib and youtube_data = data_ok,
               THEN conjunct2, THEN conjunct2, rule_format, OF ok]
  from ev srt empty all show ?thesis by (intro conjI)
qed

end
